theory Spec2Isabelle
  imports Complex_Main "HOL-Library.Word"
begin

section \<open>Data model\<close>

text \<open>
  The exporter's \<^verbatim>\<open>main\<close> package: \<^verbatim>\<open>probeHandler\<close>, the whitelist loop, the reload
  loop and the HTTP handlers. Seconds are \<^verbatim>\<open>float64\<close> in the source and \<open>real\<close> here
  (rounding, infinities and NaN are outside the model); a \<^verbatim>\<open>time.Duration\<close> is a number
  of nanoseconds, taken without the bound of 64 bits.
\<close>

type_synonym Duration = int

text \<open>\<^verbatim>\<open>d.Seconds()\<close>: the whole seconds plus the rest over \<open>10\<^sup>9\<close>, which in the reals is \<open>d / 10\<^sup>9\<close>.\<close>

definition Seconds :: "Duration \<Rightarrow> real" where
  "Seconds d = real_of_int d / 1000000000"

text \<open>The conversion \<^verbatim>\<open>time.Duration(x)\<close> of a float: the fraction is dropped, toward zero.\<close>

definition toDuration :: "real \<Rightarrow> Duration" where
  "toDuration x = (if x < 0 then \<lceil>x\<rceil> else \<lfloor>x\<rfloor>)"

text \<open>
  Modelled from the spec: \<^verbatim>\<open>config.Module\<close> and \<^verbatim>\<open>config.Config\<close> are declared in the
  package \<^verbatim>\<open>config\<close>, which is not among the sources. A module has a protocol kind
  (\<^verbatim>\<open>module.Prober\<close>), a ceiling timeout (\<^verbatim>\<open>module.Timeout\<close>, zero when unset) and
  protocol-specific parameters that the handler never looks at; a configuration maps
  module names to modules (\<^verbatim>\<open>c.Modules[moduleName]\<close>).
\<close>

record Module =
  Prober :: string
  Timeout :: Duration
  Params :: string

record Config =
  Modules :: "string \<rightharpoonup> Module"

text \<open>
  A request as the handlers read it: the method, the path, the parsed query values in the order of
  the query string, the headers under their canonical names, and the client's address.
\<close>

record Request =
  Method :: string
  Path :: string
  Query :: "(string \<times> string) list"
  Header :: "(string \<times> string) list"
  RemoteAddr :: string

text \<open>\<^verbatim>\<open>url.Values.Get\<close> and \<^verbatim>\<open>http.Header.Get\<close>: the first value of the key, or the empty string.\<close>

definition Get :: "(string \<times> string) list \<Rightarrow> string \<Rightarrow> string" where
  "Get vs key = (case map_of vs key of None \<Rightarrow> [] | Some v \<Rightarrow> v)"

text \<open>A gauge, and a registry as the list of what was registered into it, in order.\<close>

record Metric =
  Name :: string
  Help :: string
  Val :: real

type_synonym Registry = "Metric list"

definition NewGauge :: "string \<Rightarrow> string \<Rightarrow> Metric" where
  "NewGauge name help = \<lparr>Name = name, Help = help, Val = 0\<rparr>"

definition NewRegistry :: Registry where
  "NewRegistry = []"

text \<open>\<^verbatim>\<open>MustRegister\<close> panics (\<open>None\<close>) when the name is already registered.\<close>

definition MustRegister :: "Metric \<Rightarrow> Registry \<Rightarrow> Registry option" where
  "MustRegister g registry =
     (if Name g \<in> set (map Name registry) then None else Some (registry @ [g]))"

text \<open>\<^verbatim>\<open>gauge.Set(v)\<close>, seen through the registry that holds the gauge.\<close>

definition GaugeSet :: "string \<Rightarrow> real \<Rightarrow> Registry \<Rightarrow> Registry" where
  "GaugeSet name v registry = map (\<lambda>g. if Name g = name then g\<lparr>Val := v\<rparr> else g) registry"

datatype Body = Text string | Exposition Registry

record Response =
  Status :: nat
  Body :: Body

text \<open>\<^verbatim>\<open>http.Error(w, msg, code)\<close> writes the message and a newline.\<close>

definition http_Error :: "string \<Rightarrow> nat \<Rightarrow> Response" where
  "http_Error msg code = \<lparr>Status = code, Body = Text (msg @ [CHR 0x0A])\<rparr>"

text \<open>What a handler leaves behind: a response, or a panic that the server recovers from.\<close>

datatype Outcome = Wrote Response | Panicked

datatype Context = WithTimeout Duration

text \<open>
  A prober (\<^verbatim>\<open>prober.ProbeFn\<close>) is an external collaborator. What the handler sees of a
  call that returns: the boolean, the collectors the prober registered into the registry
  it was given, and the clock when \<^verbatim>\<open>time.Since(start)\<close> is read after it.
\<close>

record ProbeReturn =
  success :: bool
  collected :: "Metric list"
  returned :: int

type_synonym ProbeFn = "Context \<Rightarrow> string \<Rightarrow> Module \<Rightarrow> Registry \<Rightarrow> ProbeReturn"

text \<open>
  An address as the whitelist loop sees it: \<open>IPv4 a\<close> is a \<^verbatim>\<open>net.IP\<close> whose \<^verbatim>\<open>To4()\<close> is
  not \<^verbatim>\<open>nil\<close>, with its four bytes as \<open>a\<close>; \<open>IPv6 a\<close> is any other, with its sixteen bytes.
  A \<^verbatim>\<open>net.IPNet\<close> is its network number (the field \<^verbatim>\<open>IP\<close>, of four bytes for a block in
  IPv4 notation and of sixteen otherwise) and the number of leading one bits of its mask.
\<close>

datatype IP = IPv4 "32 word" | IPv6 "128 word"

record IPNet =
  netIP :: IP
  ones :: nat

text \<open>
  The environment of the program: the flags, the standard library functions whose
  results the code branches on, and the functions of this repository's packages
  \<^verbatim>\<open>config\<close>, \<^verbatim>\<open>prober\<close> and (vendored) \<^verbatim>\<open>promhttp\<close>, which are not among the sources.
  \<^item> \<open>ParseFloat v\<close> is \<^verbatim>\<open>strconv.ParseFloat(v, 64)\<close>: the error's text or the value.
  \<^item> \<open>Quote\<close> is the verb \<^verbatim>\<open>%q\<close> of \<^verbatim>\<open>fmt\<close>.
  \<^item> \<open>RecoverConfig configData module\<close> is \<^verbatim>\<open>config.RecoverConfig(configData, &module)\<close>:
    the error's text or the module to probe with.
  \<^item> \<open>ParseIP\<close> and \<open>ParseCIDR\<close> are those of \<^verbatim>\<open>net\<close>; \<open>ParseIP\<close> gives \<open>None\<close> for \<^verbatim>\<open>nil\<close>.
  \<^item> \<open>CheckInIpWhitelist\<close> is the gate of the vendored \<^verbatim>\<open>promhttp\<close>: \<open>None\<close> when it
    returns true, and the response it has written when it returns false.
  \<^item> \<open>ReadConfigFile path\<close> is what \<^verbatim>\<open>sc.ReloadConfig\<close> gets from reading, parsing and
    validating the file: the error's text or the new configuration.
  \<^item> \<open>MarshalConfig\<close> is \<^verbatim>\<open>yaml.Marshal\<close> on a configuration.
  \<^item> \<open>DefaultGatherer\<close> is what the process-wide registry exposes.
\<close>

record Env =
  configFile :: string
  timeoutOffset :: real
  ipWhitelistString :: string
  ParseFloat :: "string \<Rightarrow> string + real"
  Quote :: "string \<Rightarrow> string"
  RecoverConfig :: "string \<Rightarrow> Module \<Rightarrow> string + Module"
  ProbeHTTP :: ProbeFn
  ProbeTCP :: ProbeFn
  ProbeICMP :: ProbeFn
  ProbeDNS :: ProbeFn
  ParseIP :: "string \<Rightarrow> IP option"
  ParseCIDR :: "string \<Rightarrow> string + IPNet"
  CheckInIpWhitelist :: "IPNet list \<Rightarrow> Request \<Rightarrow> Response option"
  ReadConfigFile :: "string \<Rightarrow> string + Config"
  MarshalConfig :: "Config \<Rightarrow> string + string"
  DefaultGatherer :: Registry

section \<open>The probe handler\<close>

text \<open>The dispatch table \<^verbatim>\<open>Probers\<close>.\<close>

definition Probers :: "Env \<Rightarrow> string \<rightharpoonup> ProbeFn" where
  "Probers env =
     [''http'' \<mapsto> ProbeHTTP env, ''tcp'' \<mapsto> ProbeTCP env,
      ''icmp'' \<mapsto> ProbeICMP env, ''dns'' \<mapsto> ProbeDNS env]"

text \<open>The module name of the request: \<^verbatim>\<open>http_2xx\<close> when the parameter is empty.\<close>

definition moduleName :: "Request \<Rightarrow> string" where
  "moduleName r =
     (let moduleName = Get (Query r) ''module''
      in if moduleName = [] then ''http_2xx'' else moduleName)"

text \<open>
  The timeout header (lines 70 to 78 of \<^verbatim>\<open>probeHandler\<close>): \<^verbatim>\<open>timeoutSeconds\<close> starts at
  zero and is parsed from the header when the header's value is not empty.
\<close>

definition headerTimeout :: "Env \<Rightarrow> Request \<Rightarrow> string + real" where
  "headerTimeout env r =
     (let v = Get (Header r) ''X-Prometheus-Scrape-Timeout-Seconds''
      in if v \<noteq> [] then ParseFloat env v else Inr 0)"

text \<open>Lines 79 to 85: the baseline for a zero value, then the module's ceiling.\<close>

definition timeoutSeconds :: "Module \<Rightarrow> real \<Rightarrow> real" where
  "timeoutSeconds modul t0 =
     (let t1 = (if t0 = 0 then 10 else t0)
      in if Seconds (Timeout modul) < t1 \<and> Seconds (Timeout modul) > 0
         then Seconds (Timeout modul) else t1)"

text \<open>Line 86: the context's timeout.\<close>

definition probeContext :: "Env \<Rightarrow> real \<Rightarrow> Context" where
  "probeContext env t = WithTimeout (toDuration ((t - timeoutOffset env) * 1000000000))"

text \<open>
  Modelled from the spec: \<^verbatim>\<open>promhttp.HandlerFor(registry, opts, ipWhitelist)\<close> is the
  vendored handler, which this repository changed to take the whitelist; it is not among
  the sources. Following sections 4.3 and 4.4 of the spec, serving it applies the gate
  first and then renders the container as the body, with status 200.
\<close>

definition HandlerFor :: "Env \<Rightarrow> Registry \<Rightarrow> IPNet list \<Rightarrow> Request \<Rightarrow> Response" where
  "HandlerFor env registry ipWhitelist r =
     (case CheckInIpWhitelist env ipWhitelist r of
        Some denied \<Rightarrow> denied
      | None \<Rightarrow> \<lparr>Status = 200, Body = Exposition registry\<rparr>)"

text \<open>
  Lines 59 to 118 of \<^verbatim>\<open>probeHandler\<close>, in the order of the source: everything the handler
  does before it probes. \<open>Inl\<close> is the rejection it writes before it returns; \<open>Inr\<close> is what
  it goes on with (the context, the target, the module to probe with and the prober).
\<close>

definition probeRequest ::
  "Env \<Rightarrow> Request \<Rightarrow> Config \<Rightarrow> Response + (Context \<times> string \<times> Module \<times> ProbeFn)" where
  "probeRequest env r c =
     (case Modules c (moduleName r) of
        None \<Rightarrow> Inl (http_Error (''Unknown module '' @ Quote env (moduleName r)) 400)
      | Some modul \<Rightarrow>
          (case headerTimeout env r of
             Inl err \<Rightarrow>
               Inl (http_Error (''Failed to parse timeout from Prometheus header: '' @ err) 500)
           | Inr t0 \<Rightarrow>
               (let ctx = probeContext env (timeoutSeconds modul t0);
                    target = Get (Query r) ''target'';
                    configData = Get (Query r) ''config''
                in if target = [] then Inl (http_Error ''Target parameter is missing'' 400)
                   else
                     (case (if configData \<noteq> [] then RecoverConfig env configData modul
                            else Inr modul) of
                        Inl err \<Rightarrow> Inl (http_Error err 400)
                      | Inr effective \<Rightarrow>
                          (case Probers env (Prober effective) of
                             None \<Rightarrow>
                               Inl (http_Error
                                     (''Unknown prober '' @ Quote env (Prober effective)) 400)
                           | Some prober \<Rightarrow> Inr (ctx, target, effective, prober))))))"

text \<open>The two gauges of lines 90 to 97.\<close>

definition probeSuccessGauge :: Metric where
  "probeSuccessGauge =
     NewGauge ''probe_success'' ''Displays whether or not the probe was a success''"

definition probeDurationGauge :: Metric where
  "probeDurationGauge =
     NewGauge ''probe_duration_seconds''
       ''Returns how long the probe took to complete in seconds''"

text \<open>
  Lines 120 to 130: the registry, the call of the prober, the two gauges, the rendering.
  \<open>start\<close> is the clock at \<^verbatim>\<open>time.Now()\<close>.
\<close>

definition runProbe ::
  "Env \<Rightarrow> int \<Rightarrow> Request \<Rightarrow> IPNet list \<Rightarrow> Context \<Rightarrow> string \<Rightarrow> Module \<Rightarrow> ProbeFn \<Rightarrow> Outcome" where
  "runProbe env start r whitelist ctx target modul prober =
     (case MustRegister probeSuccessGauge NewRegistry of
        None \<Rightarrow> Panicked
      | Some registry1 \<Rightarrow>
          (case MustRegister probeDurationGauge registry1 of
             None \<Rightarrow> Panicked
           | Some registry \<Rightarrow>
               (let ret = prober ctx target modul registry;
                    registry2 =
                      GaugeSet (Name probeDurationGauge) (Seconds (returned ret - start)) registry;
                    registry3 =
                      (if success ret then GaugeSet (Name probeSuccessGauge) 1 registry2
                       else registry2)
                in Wrote (HandlerFor env (registry3 @ collected ret) whitelist r))))"

definition probeHandler :: "Env \<Rightarrow> int \<Rightarrow> Request \<Rightarrow> Config \<Rightarrow> IPNet list \<Rightarrow> Outcome" where
  "probeHandler env start r c whitelist =
     (case probeRequest env r c of
        Inl rejected \<Rightarrow> Wrote rejected
      | Inr (ctx, target, modul, prober) \<Rightarrow>
          runProbe env start r whitelist ctx target modul prober)"

section \<open>The whitelist\<close>

text \<open>\<^verbatim>\<open>strings.Split(s, sep)\<close> for a separator of one character.\<close>

fun Split :: "string \<Rightarrow> char \<Rightarrow> string list" where
  "Split [] sep = [[]]"
| "Split (c # cs) sep =
     (if c = sep then [] # Split cs sep
      else (case Split cs sep of [] \<Rightarrow> [[c]] | x # xs \<Rightarrow> (c # x) # xs))"

text \<open>Lines 153 to 160: a string that parses as an address gets a prefix length.\<close>

definition netIpString :: "Env \<Rightarrow> string \<Rightarrow> string" where
  "netIpString env s =
     (case ParseIP env s of
        None \<Rightarrow> s
      | Some (IPv4 a) \<Rightarrow> s @ ''/32''
      | Some (IPv6 a) \<Rightarrow> s @ ''/128'')"

text \<open>
  The loop of lines 152 to 167 over the entries that are left, with the whitelist built
  so far. \<^verbatim>\<open>log.Fatalf\<close> ends the process: \<open>Inl\<close> with the line it logs.
\<close>

fun addNetIps :: "Env \<Rightarrow> string list \<Rightarrow> IPNet list \<Rightarrow> string + IPNet list" where
  "addNetIps env [] ipWhitelist = Inr ipWhitelist"
| "addNetIps env (s # rest) ipWhitelist =
     (case ParseCIDR env (netIpString env s) of
        Inl err \<Rightarrow> Inl (''Add netip error: '' @ err)
      | Inr netIp \<Rightarrow> addNetIps env rest (ipWhitelist @ [netIp]))"

definition ipWhitelist :: "Env \<Rightarrow> string + IPNet list" where
  "ipWhitelist env = addNetIps env (Split (ipWhitelistString env) (CHR '','')) []"

text \<open>
  Modelled from the spec: the matching rule of the gate, whose code
  (\<^verbatim>\<open>promhttp.CheckInIpWhitelist\<close>) is not among the sources. Section 4.3: an address is
  allowed if and only if it falls inside at least one range of the whitelist, and an
  address never matches a range of the other family.
\<close>

definition Contains :: "IPNet \<Rightarrow> IP \<Rightarrow> bool" where
  "Contains n a =
     (case (netIP n, a) of
        (IPv4 x, IPv4 y) \<Rightarrow>
          ones n \<le> 32 \<and> drop_bit (32 - ones n) x = drop_bit (32 - ones n) y
      | (IPv6 x, IPv6 y) \<Rightarrow>
          ones n \<le> 128 \<and> drop_bit (128 - ones n) x = drop_bit (128 - ones n) y
      | _ \<Rightarrow> False)"

definition allowed :: "IPNet list \<Rightarrow> IP \<Rightarrow> bool" where
  "allowed whitelist a = list_ex (\<lambda>n. Contains n a) whitelist"

section \<open>The configuration store and the reload loop\<close>

datatype LogLine = Infoln string | Errorf string | Warnf string

text \<open>The shared state: the configuration in \<^verbatim>\<open>sc.C\<close> and the log.\<close>

record State =
  C :: Config
  Log :: "LogLine list"

text \<open>
  Modelled from the spec: \<^verbatim>\<open>sc.ReloadConfig\<close> is a method of the package \<^verbatim>\<open>config\<close>, which
  is not among the sources. Section 4.2: one attempt reads, parses and validates the
  file; on success the new configuration is installed in the store; on failure (file
  unreadable, parse error, validation error) the store's configuration is left untouched
  and the error is returned.
\<close>

definition ReloadConfig :: "Env \<Rightarrow> string \<Rightarrow> State \<Rightarrow> string option \<times> State" where
  "ReloadConfig env confFile s =
     (case ReadConfigFile env confFile of
        Inl err \<Rightarrow> (Some err, s)
      | Inr c \<Rightarrow> (None, s\<lparr>C := c\<rparr>))"

text \<open>
  The two cases of the \<^verbatim>\<open>select\<close> in the reload loop: a signal on \<^verbatim>\<open>hup\<close>, and a reply
  channel received on \<^verbatim>\<open>reloadCh\<close>. What is sent on the reply channel is \<open>Replied\<close>
  (\<open>None\<close> for \<^verbatim>\<open>nil\<close>).
\<close>

datatype Trigger = Hup | ReloadCh

datatype Ack = NoReply | Replied "string option"

definition reloadLoop :: "Env \<Rightarrow> Trigger \<Rightarrow> State \<Rightarrow> Ack \<times> State" where
  "reloadLoop env t s =
     (case t of
        Hup \<Rightarrow>
          (case ReloadConfig env (configFile env) s of
             (Some err, s') \<Rightarrow>
               (NoReply, s'\<lparr>Log := Log s' @ [Errorf (''Error reloading config: '' @ err)]\<rparr>)
           | (None, s') \<Rightarrow> (NoReply, s'\<lparr>Log := Log s' @ [Infoln ''Loaded config file'']\<rparr>))
      | ReloadCh \<Rightarrow>
          (case ReloadConfig env (configFile env) s of
             (Some err, s') \<Rightarrow>
               (Replied (Some err),
                s'\<lparr>Log := Log s' @ [Errorf (''Error reloading config: '' @ err)]\<rparr>)
           | (None, s') \<Rightarrow>
               (Replied None, s'\<lparr>Log := Log s' @ [Infoln ''Loaded config file'']\<rparr>)))"

section \<open>The endpoints\<close>

text \<open>
  Each handler takes the whitelist and the shared state and gives what it wrote and the
  state it leaves. A handler that writes a body without a status answers 200.
\<close>

definition ok :: "string \<Rightarrow> Response" where
  "ok body = \<lparr>Status = 200, Body = Text body\<rparr>"

text \<open>
  \<^verbatim>\<open>/-/reload\<close>: the handler sends a reply channel on \<^verbatim>\<open>reloadCh\<close> and waits for the answer,
  so the reload loop runs its second case in between.
\<close>

definition reloadHandler :: "Env \<Rightarrow> IPNet list \<Rightarrow> State \<Rightarrow> Request \<Rightarrow> Outcome \<times> State" where
  "reloadHandler env whitelist s r =
     (case CheckInIpWhitelist env whitelist r of
        Some denied \<Rightarrow> (Wrote denied, s)
      | None \<Rightarrow>
          if Method r \<noteq> ''POST''
          then (Wrote \<lparr>Status = 405,
                       Body = Text (''This endpoint requires a POST request.'' @ [CHR 0x0A])\<rparr>, s)
          else
            (case reloadLoop env ReloadCh s of
               (Replied (Some err), s') \<Rightarrow>
                 (Wrote (http_Error (''failed to reload config: '' @ err) 500), s')
             | (_, s') \<Rightarrow> (Wrote (ok []), s')))"

text \<open>
  Modelled from the spec: \<^verbatim>\<open>/metrics\<close> is served by \<^verbatim>\<open>promhttp.Handler(ipWhitelist)\<close> of the
  vendored package, that is, by \<open>HandlerFor\<close> on the process-wide registry.
\<close>

definition metricsHandler :: "Env \<Rightarrow> IPNet list \<Rightarrow> State \<Rightarrow> Request \<Rightarrow> Outcome \<times> State" where
  "metricsHandler env whitelist s r =
     (Wrote (HandlerFor env (DefaultGatherer env) whitelist r), s)"

text \<open>\<^verbatim>\<open>/probe\<close>: the gate, the snapshot of \<^verbatim>\<open>sc.C\<close>, \<^verbatim>\<open>probeHandler\<close>.\<close>

definition probeEndpoint ::
  "Env \<Rightarrow> IPNet list \<Rightarrow> int \<Rightarrow> State \<Rightarrow> Request \<Rightarrow> Outcome \<times> State" where
  "probeEndpoint env whitelist start s r =
     (case CheckInIpWhitelist env whitelist r of
        Some denied \<Rightarrow> (Wrote denied, s)
      | None \<Rightarrow> (let conf = C s in (probeHandler env start r conf whitelist, s)))"


definition landingPage :: string where
  "landingPage =
     ''<html>'' @ [CHR 0x0A] @ ''    <head><title>Blackbox Exporter</title></head>'' @
     [CHR 0x0A] @ ''    <body>'' @ [CHR 0x0A] @ ''    <h1>Blackbox Exporter</h1>'' @
     [CHR 0x0A] @ ''    <p><a href='' @ [CHR 0x22] @
     ''/probe?target=www.bilibili.com&module=http_2xx'' @ [CHR 0x22] @
     ''>Probe www.bilibili.com for http_2xx</a></p>'' @ [CHR 0x0A] @ ''    <p><a href='' @
     [CHR 0x22] @ ''/metrics'' @ [CHR 0x22] @ ''>Metrics</a></p>'' @ [CHR 0x0A] @
     ''    <p><a href='' @ [CHR 0x22] @ ''/config'' @ [CHR 0x22] @
     ''>Configuration</a></p>'' @ [CHR 0x0A] @ ''    </body>'' @ [CHR 0x0A] @
     ''    </html>''"

definition landingHandler :: "Env \<Rightarrow> IPNet list \<Rightarrow> State \<Rightarrow> Request \<Rightarrow> Outcome \<times> State" where
  "landingHandler env whitelist s r =
     (case CheckInIpWhitelist env whitelist r of
        Some denied \<Rightarrow> (Wrote denied, s)
      | None \<Rightarrow> (Wrote (ok landingPage), s))"

definition configHandler :: "Env \<Rightarrow> IPNet list \<Rightarrow> State \<Rightarrow> Request \<Rightarrow> Outcome \<times> State" where
  "configHandler env whitelist s r =
     (case CheckInIpWhitelist env whitelist r of
        Some denied \<Rightarrow> (Wrote denied, s)
      | None \<Rightarrow>
          (case MarshalConfig env (C s) of
             Inl err \<Rightarrow>
               (Wrote (http_Error err 500),
                s\<lparr>Log := Log s @ [Warnf (''Error marshalling configuration: '' @ err)]\<rparr>)
           | Inr c \<Rightarrow> (Wrote (ok c), s)))"

text \<open>
  The routes registered in \<^verbatim>\<open>main\<close>; the pattern \<^verbatim>\<open>/\<close> takes every path that has no
  handler of its own.
\<close>

definition ServeHTTP :: "Env \<Rightarrow> IPNet list \<Rightarrow> int \<Rightarrow> State \<Rightarrow> Request \<Rightarrow> Outcome \<times> State" where
  "ServeHTTP env whitelist start s r =
     (if Path r = ''/-/reload'' then reloadHandler env whitelist s r
      else if Path r = ''/metrics'' then metricsHandler env whitelist s r
      else if Path r = ''/probe'' then probeEndpoint env whitelist start s r
      else if Path r = ''/config'' then configHandler env whitelist s r
      else landingHandler env whitelist s r)"

section \<open>A concrete environment\<close>

text \<open>
  The flags at their defaults, and stand-ins for the functions of the environment that
  agree with the real ones on the inputs used below.
\<close>

text \<open>\<^verbatim>\<open>%q\<close> on a string of printable ASCII without quotes or backslashes.\<close>

definition plainQuote :: "string \<Rightarrow> string" where
  "plainQuote s = CHR 0x22 # s @ [CHR 0x22]"

text \<open>
  \<^verbatim>\<open>strconv.ParseFloat\<close> on a string of decimal digits, which it reads as that number. Of
  the other strings only \<^verbatim>\<open>abc\<close> is used below, which it refuses as invalid syntax.
\<close>

definition decimalParseFloat :: "string \<Rightarrow> string + real" where
  "decimalParseFloat v =
     (if v \<noteq> [] \<and> list_all (\<lambda>c. c \<in> set ''0123456789'') v
      then Inr (real (foldl (\<lambda>n c. 10 * n + (of_char c - 48)) 0 v))
      else Inl (''strconv.ParseFloat: parsing '' @ plainQuote v @ '': invalid syntax''))"

text \<open>
  A prober that succeeds or fails as it is told, takes until the clock shows 1.25 seconds,
  and registers what it was called with: the timeout of its context, and the number of
  entries in the registry it was given.
\<close>

definition echoProbe :: "bool \<Rightarrow> ProbeFn" where
  "echoProbe up ctx target modul registry =
     \<lparr>success = up,
      collected =
        [\<lparr>Name = ''context_timeout_nanoseconds'', Help = target,
          Val = (case ctx of WithTimeout d \<Rightarrow> real_of_int d)\<rparr>,
         \<lparr>Name = ''registry_entries'', Help = Params modul, Val = real (length registry)\<rparr>],
      returned = 1250000000\<rparr>"

text \<open>An override that knows one setting and refuses every other string.\<close>

definition overrideTimeout :: "string \<Rightarrow> Module \<Rightarrow> string + Module" where
  "overrideTimeout configData modul =
     (if configData = ''timeout: 2s'' then Inr (modul\<lparr>Timeout := 2000000000\<rparr>)
      else Inl ''yaml: unmarshal errors'')"

text \<open>
  \<^verbatim>\<open>net.ParseIP\<close> and \<^verbatim>\<open>net.ParseCIDR\<close> on the strings of the examples. The first gives
  \<^verbatim>\<open>nil\<close> for a string with a slash. \<^verbatim>\<open>::ffff:1.2.3.4\<close> parses to the sixteen bytes of
  the IPv4-mapped address, whose \<^verbatim>\<open>To4()\<close> is 1.2.3.4. \<^verbatim>\<open>net.ParseCIDR\<close> reads the address
  before the slash as IPv4 only in dotted notation; for \<^verbatim>\<open>::ffff:1.2.3.4/32\<close> it takes the
  sixteen bytes and a mask of 32 ones out of 128, so the network number is \<^verbatim>\<open>::\<close>. A prefix
  length of 33 is refused for an IPv4 address.
\<close>

definition tableParseIP :: "string \<Rightarrow> IP option" where
  "tableParseIP s =
     (if s = ''127.0.0.1'' then Some (IPv4 2130706433)
      else if s = ''::1'' then Some (IPv6 1)
      else if s = ''::ffff:1.2.3.4'' then Some (IPv4 16909060)
      else None)"

definition tableParseCIDR :: "string \<Rightarrow> string + IPNet" where
  "tableParseCIDR s =
     (if s = ''0.0.0.0/0'' then Inr \<lparr>netIP = IPv4 0, ones = 0\<rparr>
      else if s = ''::/0'' then Inr \<lparr>netIP = IPv6 0, ones = 0\<rparr>
      else if s = ''127.0.0.1/32'' then Inr \<lparr>netIP = IPv4 2130706433, ones = 32\<rparr>
      else if s = ''::1/128'' then Inr \<lparr>netIP = IPv6 1, ones = 128\<rparr>
      else if s = ''::ffff:1.2.3.4/32'' then Inr \<lparr>netIP = IPv6 0, ones = 32\<rparr>
      else Inl (''invalid CIDR address: '' @ s))"

text \<open>A gate that turns one client away.\<close>

definition denyOne :: "IPNet list \<Rightarrow> Request \<Rightarrow> Response option" where
  "denyOne whitelist r =
     (if RemoteAddr r = ''192.0.2.7:40000''
      then Some \<lparr>Status = 403, Body = Text ''Forbidden''\<rparr> else None)"

definition http_2xx :: Module where
  "http_2xx = \<lparr>Prober = ''http'', Timeout = 5000000000, Params = ''valid_status_codes: []''\<rparr>"

definition tcp_connect :: Module where
  "tcp_connect = \<lparr>Prober = ''tcp'', Timeout = 0, Params = []\<rparr>"

definition conf1 :: Config where
  "conf1 = \<lparr>Modules = [''http_2xx'' \<mapsto> http_2xx, ''tcp_connect'' \<mapsto> tcp_connect]\<rparr>"

definition conf2 :: Config where
  "conf2 = \<lparr>Modules = [''tcp_connect'' \<mapsto> tcp_connect]\<rparr>"

text \<open>One configuration file on disk, with a configuration that differs from \<open>conf1\<close>.\<close>

definition readOneFile :: "string \<Rightarrow> string + Config" where
  "readOneFile confFile =
     (if confFile = ''blackbox.yml'' then Inr conf2
      else Inl (''Error reading config file: open '' @ confFile @ '': no such file or directory''))"

definition marshalNames :: "Config \<Rightarrow> string + string" where
  "marshalNames c = Inr (if Modules c ''http_2xx'' = None then ''modules: {}'' else ''modules: {http_2xx}'')"

definition env0 :: Env where
  "env0 =
     \<lparr>configFile = ''blackbox.yml'', timeoutOffset = 1 / 2, ipWhitelistString = ''0.0.0.0/0,::/0'',
      ParseFloat = decimalParseFloat, Quote = plainQuote, RecoverConfig = overrideTimeout,
      ProbeHTTP = echoProbe True, ProbeTCP = echoProbe False, ProbeICMP = echoProbe False,
      ProbeDNS = echoProbe False, ParseIP = tableParseIP, ParseCIDR = tableParseCIDR,
      CheckInIpWhitelist = denyOne, ReadConfigFile = readOneFile, MarshalConfig = marshalNames,
      DefaultGatherer = []\<rparr>"

definition request :: "(string \<times> string) list \<Rightarrow> (string \<times> string) list \<Rightarrow> Request" where
  "request query header =
     \<lparr>Method = ''GET'', Path = ''/probe'', Query = query, Header = header,
      RemoteAddr = ''198.51.100.4:51000''\<rparr>"

definition hintZero :: Request where
  "hintZero =
     request [(''module'', ''tcp_connect''), (''target'', ''example.org'')]
       [(''X-Prometheus-Scrape-Timeout-Seconds'', ''0'')]"

definition noHint :: Request where
  "noHint = request [(''module'', ''tcp_connect''), (''target'', ''example.org'')] []"





definition noTarget :: Request where
  "noTarget = request [(''module'', ''tcp_connect''), (''config'', ''timeout: 2s'')] []"

definition noTargetUnknownModule :: Request where
  "noTargetUnknownModule = request [(''module'', ''nope'')] []"

definition noTargetBadHint :: Request where
  "noTargetBadHint = request [] [(''X-Prometheus-Scrape-Timeout-Seconds'', ''abc'')]"

definition probeUp :: Request where
  "probeUp = request [(''target'', ''example.org'')] []"

definition probeDown :: Request where
  "probeDown = request [(''target'', ''192.0.2.1:22''), (''module'', ''tcp_connect'')] []"

definition state1 :: State where
  "state1 = \<lparr>C = conf1, Log = []\<rparr>"



text \<open>The same environment with a configuration file that cannot be read.\<close>

definition env1 :: Env where
  "env1 = env0\<lparr>configFile := ''missing.yml''\<rparr>"

definition post :: "string \<Rightarrow> string \<Rightarrow> Request" where
  "post path addr =
     \<lparr>Method = ''POST'', Path = path, Query = [(''target'', ''example.org'')], Header = [],
      RemoteAddr = addr\<rparr>"

text \<open>The same environment with one whitelist entry, an IPv4-mapped address in IPv6 notation.\<close>

definition env2 :: Env where
  "env2 = env0\<lparr>ipWhitelistString := ''::ffff:1.2.3.4''\<rparr>"

definition env3 :: Env where
  "env3 = env0\<lparr>ipWhitelistString := ''127.0.0.1,::1,10.0.0.0/33''\<rparr>"

section \<open>Helper lemmas\<close>

lemmas sample_defs = env0_def request_def conf1_def conf2_def http_2xx_def tcp_connect_def
  decimalParseFloat_def plainQuote_def echoProbe_def overrideTimeout_def denyOne_def

lemma runProbe_eq:
  "runProbe env start r whitelist ctx target modul prober =
     Wrote (HandlerFor env
       ([probeSuccessGauge\<lparr>Val := (if success (prober ctx target modul
                                            [probeSuccessGauge, probeDurationGauge]) then 1 else 0)\<rparr>,
         probeDurationGauge\<lparr>Val := Seconds (returned (prober ctx target modul
                                            [probeSuccessGauge, probeDurationGauge]) - start)\<rparr>]
        @ collected (prober ctx target modul [probeSuccessGauge, probeDurationGauge]))
       whitelist r)"
  by (simp add: runProbe_def MustRegister_def NewRegistry_def GaugeSet_def
      probeSuccessGauge_def probeDurationGauge_def NewGauge_def Let_def)

lemma probeRequest_unknown_module:
  "Modules c (moduleName r) = None \<Longrightarrow>
   probeRequest env r c = Inl (http_Error (''Unknown module '' @ Quote env (moduleName r)) 400)"
  by (simp add: probeRequest_def)


lemma probeRequest_no_target:
  "Modules c (moduleName r) = Some m \<Longrightarrow> headerTimeout env r = Inr t0 \<Longrightarrow>
   Get (Query r) ''target'' = [] \<Longrightarrow>
   probeRequest env r c = Inl (http_Error ''Target parameter is missing'' 400)"
  by (simp add: probeRequest_def)

lemma probeRequest_InrD:
  assumes "probeRequest env r c = Inr (ctx, target, effective, prober)"
  shows "\<exists>m t0. Modules c (moduleName r) = Some m \<and> headerTimeout env r = Inr t0 \<and>
           ctx = probeContext env (timeoutSeconds m t0) \<and>
           target = Get (Query r) ''target'' \<and> target \<noteq> [] \<and>
           (if Get (Query r) ''config'' \<noteq> []
            then RecoverConfig env (Get (Query r) ''config'') m else Inr m) = Inr effective \<and>
           Probers env (Prober effective) = Some prober"
  using assms
  by (auto simp: probeRequest_def Let_def split: option.splits sum.splits if_splits)

lemma headerTimeout_eq:
  "Get (Header r) ''X-Prometheus-Scrape-Timeout-Seconds'' = v \<Longrightarrow>
   headerTimeout env r = (if v \<noteq> [] then ParseFloat env v else Inr 0)"
  by (simp add: headerTimeout_def Let_def)

lemma timeoutSeconds_eq:
  "timeoutSeconds m t0 =
     (if 0 < Seconds (Timeout m) \<and> Seconds (Timeout m) < (if t0 = 0 then 10 else t0)
      then Seconds (Timeout m) else (if t0 = 0 then 10 else t0))"
  by (auto simp: timeoutSeconds_def Let_def)

lemma probeHandler_rejected:
  "probeRequest env r c = Inl rejected \<Longrightarrow> probeHandler env start r c whitelist = Wrote rejected"
  by (simp add: probeHandler_def)

lemma probeHandler_probes:
  "probeRequest env r c = Inr (ctx, target, effective, prober) \<Longrightarrow>
   probeHandler env start r c whitelist = runProbe env start r whitelist ctx target effective prober"
  by (simp add: probeHandler_def)


lemma probeEndpoint_allowed:
  "CheckInIpWhitelist env whitelist r = None \<Longrightarrow>
   probeEndpoint env whitelist start s r = (probeHandler env start r (C s) whitelist, s)"
  by (simp add: probeEndpoint_def)

lemma HandlerFor_allowed:
  "CheckInIpWhitelist env whitelist r = None \<Longrightarrow>
   HandlerFor env registry whitelist r = \<lparr>Status = 200, Body = Exposition registry\<rparr>"
  by (simp add: HandlerFor_def)

lemma probeEndpoint_probes:
  assumes "CheckInIpWhitelist env whitelist r = None"
    and "probeRequest env r (C s) = Inr (ctx, target, effective, prober)"
    and "prober ctx target effective [probeSuccessGauge, probeDurationGauge] = ret"
  shows "probeEndpoint env whitelist start s r =
     (Wrote \<lparr>Status = 200,
             Body = Exposition
               ([probeSuccessGauge\<lparr>Val := (if success ret then 1 else 0)\<rparr>,
                 probeDurationGauge\<lparr>Val := Seconds (returned ret - start)\<rparr>] @ collected ret)\<rparr>,
      s)"
  using assms
  by (simp add: probeEndpoint_allowed probeHandler_probes runProbe_eq HandlerFor_allowed)





lemma reloadLoop_succeeded:
  assumes "ReadConfigFile env (configFile env) = Inr c"
  shows "reloadLoop env Hup s = (NoReply, \<lparr>C = c, Log = Log s @ [Infoln ''Loaded config file'']\<rparr>)"
    and "reloadLoop env ReloadCh s =
           (Replied None, \<lparr>C = c, Log = Log s @ [Infoln ''Loaded config file'']\<rparr>)"
  using assms by (simp_all add: reloadLoop_def ReloadConfig_def)

lemma ReloadConfig_failed:
  "ReadConfigFile env confFile = Inl err \<Longrightarrow> ReloadConfig env confFile s = (Some err, s)"
  by (simp add: ReloadConfig_def)

lemma reloadLoop_failed:
  assumes "ReadConfigFile env (configFile env) = Inl err"
  shows "reloadLoop env Hup s =
           (NoReply, s\<lparr>Log := Log s @ [Errorf (''Error reloading config: '' @ err)]\<rparr>)"
    and "reloadLoop env ReloadCh s =
           (Replied (Some err), s\<lparr>Log := Log s @ [Errorf (''Error reloading config: '' @ err)]\<rparr>)"
  using assms by (simp_all add: reloadLoop_def ReloadConfig_failed)

lemma reloadLoop_logs: "length (Log (snd (reloadLoop env t s))) = Suc (length (Log s))"
  by (cases t)
    (auto simp: reloadLoop_def ReloadConfig_def split: sum.splits option.splits prod.splits)

lemma configHandler_Log:
  "fst (configHandler env whitelist (s\<lparr>Log := l\<rparr>) r) = fst (configHandler env whitelist s r)"
  by (simp add: configHandler_def split: option.splits sum.splits)

lemma Split_not_Nil: "Split s sep \<noteq> []"
  by (induction s) (auto split: list.splits)

lemma addNetIps_Inr:
  "addNetIps env entries acc = Inr whitelist \<longleftrightarrow>
     list_all (\<lambda>s. \<not> isl (ParseCIDR env (netIpString env s))) entries \<and>
     whitelist = acc @ map (\<lambda>s. projr (ParseCIDR env (netIpString env s))) entries"
  by (induction entries arbitrary: acc) (auto split: sum.splits)

lemma addNetIps_fatal:
  "isl (ParseCIDR env (netIpString env s)) \<Longrightarrow> s \<in> set entries \<Longrightarrow>
   isl (addNetIps env entries acc)"
  by (induction entries arbitrary: acc) (auto split: sum.splits)

lemma allowed_default: "allowed [\<lparr>netIP = IPv4 0, ones = 0\<rparr>, \<lparr>netIP = IPv6 0, ones = 0\<rparr>] a"
  by (cases a) (simp_all add: allowed_def Contains_def)

lemma netIpString_cases:
  "ParseIP env s = None \<Longrightarrow> netIpString env s = s"
  "ParseIP env s = Some (IPv4 a) \<Longrightarrow> netIpString env s = s @ ''/32''"
  "ParseIP env s = Some (IPv6 b) \<Longrightarrow> netIpString env s = s @ ''/128''"
  by (simp_all add: netIpString_def)

text \<open>
  The whitelist loop as a whole: it ends in a whitelist exactly when every entry, with its
  prefix length added where it parses as an address, parses as a CIDR block, and the
  whitelist then has the blocks in the order of the flag; otherwise the process ends.
\<close>

lemma ipWhitelist_Inr:
  "ipWhitelist env = Inr whitelist \<longleftrightarrow>
     list_all (\<lambda>s. \<not> isl (ParseCIDR env (netIpString env s)))
       (Split (ipWhitelistString env) (CHR '','')) \<and>
     whitelist = map (\<lambda>s. projr (ParseCIDR env (netIpString env s)))
       (Split (ipWhitelistString env) (CHR '',''))"
  by (simp add: ipWhitelist_def addNetIps_Inr)

lemma ipWhitelist_fatal:
  "s \<in> set (Split (ipWhitelistString env) (CHR '','')) \<Longrightarrow>
   isl (ParseCIDR env (netIpString env s)) \<Longrightarrow> isl (ipWhitelist env)"
  by (simp add: ipWhitelist_def addNetIps_fatal)

text \<open>
  The default of the flag: two blocks of prefix length 0, one of each family, which
  together allow every address.
\<close>

lemma ipWhitelist_default:
  assumes "ipWhitelistString env = ''0.0.0.0/0,::/0''"
    and "ParseIP env ''0.0.0.0/0'' = None" and "ParseIP env ''::/0'' = None"
    and "ParseCIDR env ''0.0.0.0/0'' = Inr \<lparr>netIP = IPv4 0, ones = 0\<rparr>"
    and "ParseCIDR env ''::/0'' = Inr \<lparr>netIP = IPv6 0, ones = 0\<rparr>"
  shows "ipWhitelist env = Inr [\<lparr>netIP = IPv4 0, ones = 0\<rparr>, \<lparr>netIP = IPv6 0, ones = 0\<rparr>]"
    and "\<And>whitelist a. ipWhitelist env = Inr whitelist \<Longrightarrow> allowed whitelist a"
proof -
  show *: "ipWhitelist env = Inr [\<lparr>netIP = IPv4 0, ones = 0\<rparr>, \<lparr>netIP = IPv6 0, ones = 0\<rparr>]"
    using assms by (simp add: ipWhitelist_def netIpString_def)
  show "allowed whitelist a" if "ipWhitelist env = Inr whitelist" for whitelist a
    using that * allowed_default by simp
qed

lemma ipWhitelist_env0:
  "ipWhitelist env0 = Inr [\<lparr>netIP = IPv4 0, ones = 0\<rparr>, \<lparr>netIP = IPv6 0, ones = 0\<rparr>]"
  by (rule ipWhitelist_default) (simp_all add: env0_def tableParseIP_def tableParseCIDR_def)

lemma ipWhitelist_env3:
  "ipWhitelist env3 = Inl ''Add netip error: invalid CIDR address: 10.0.0.0/33''"
  by (simp add: ipWhitelist_def env3_def env0_def netIpString_def tableParseIP_def
      tableParseCIDR_def)

section \<open>Timeout negotiation\<close>




text \<open>
  C10. A timeout hint that is present and parses to exactly 0 is treated as an absent
  header: the same request without the header is handled the same way up to the probe,
  the candidate is the baseline 10, and the budget is the smaller of 10 and the module's
  ceiling when that is positive, 10 otherwise, minus the offset. The value 0 is never the
  candidate.
\<close>

theorem zero_hint_is_no_hint:
  assumes "Get (Header r) ''X-Prometheus-Scrape-Timeout-Seconds'' = v"
    and "v \<noteq> []"
    and "ParseFloat env v = Inr 0"
    and "Get (Header r0) ''X-Prometheus-Scrape-Timeout-Seconds'' = []"
    and "Query r0 = Query r"
  shows "headerTimeout env r = headerTimeout env r0 \<and>
         probeRequest env r c = probeRequest env r0 c \<and>
         timeoutSeconds m 0 =
           (if 0 < Seconds (Timeout m) then min 10 (Seconds (Timeout m)) else 10) \<and>
         timeoutSeconds m 0 \<noteq> 0 \<and>
         (\<forall>ctx target effective prober.
            Modules c (moduleName r) = Some m \<longrightarrow>
            probeRequest env r c = Inr (ctx, target, effective, prober) \<longrightarrow>
            ctx = WithTimeout (toDuration
                    (((if 0 < Seconds (Timeout m) then min 10 (Seconds (Timeout m)) else 10)
                      - timeoutOffset env) * 1000000000)))"
proof -
  have h: "headerTimeout env r = Inr 0" "headerTimeout env r0 = Inr 0"
    using assms(1-4) by (simp_all add: headerTimeout_eq)
  have mn: "moduleName r0 = moduleName r"
    using assms(5) by (simp add: moduleName_def)
  have q: "probeRequest env r c = probeRequest env r0 c"
    using h assms(5) by (simp add: probeRequest_def mn split: option.splits)
  have t: "timeoutSeconds m 0 =
      (if 0 < Seconds (Timeout m) then min 10 (Seconds (Timeout m)) else 10)"
    by (auto simp: timeoutSeconds_eq)
  have n: "timeoutSeconds m 0 \<noteq> 0"
    by (auto simp: timeoutSeconds_eq)
  have c: "ctx = WithTimeout (toDuration ((timeoutSeconds m 0 - timeoutOffset env) * 1000000000))"
    if "Modules c (moduleName r) = Some m"
      and "probeRequest env r c = Inr (ctx, target, effective, prober)"
    for ctx target effective prober
    using probeRequest_InrD[OF that(2)] that(1) h(1) by (auto simp: probeContext_def)
  show ?thesis
    using h q t n c by (simp only: simp_thms) blast
qed

theorem zero_hint_is_no_hint_witness:
  "probeRequest env0 hintZero conf1 = probeRequest env0 noHint conf1 \<and>
   probeRequest env0 hintZero conf1 =
     Inr (WithTimeout 9500000000, ''example.org'', tcp_connect, echoProbe False)"
proof -
  have a: "Get (Header hintZero) ''X-Prometheus-Scrape-Timeout-Seconds'' = ''0''"
    and b: "''0'' \<noteq> []"
    and c: "ParseFloat env0 ''0'' = Inr 0"
    and d: "Get (Header noHint) ''X-Prometheus-Scrape-Timeout-Seconds'' = []"
    and e: "Query noHint = Query hintZero"
    by (simp_all add: Get_def sample_defs noHint_def hintZero_def)
  have r: "probeRequest env0 noHint conf1 =
      Inr (WithTimeout 9500000000, ''example.org'', tcp_connect, echoProbe False)"
    by (simp add: probeRequest_def moduleName_def Get_def headerTimeout_def timeoutSeconds_def
        probeContext_def Probers_def Seconds_def toDuration_def sample_defs noHint_def)
  show ?thesis
    using zero_hint_is_no_hint [OF a b c d e, of conf1 tcp_connect] r by simp
qed

section \<open>Rejections\<close>




text \<open>
  C2, as amended. A probe request without a \<^verbatim>\<open>target\<close> is always rejected, with 400 or
  500, and no prober is called. The check of the target comes after the module is resolved
  and the timeout hint is parsed: when the module resolves and the hint is absent or
  parseable, the answer is 400 with the body \<^verbatim>\<open>Target parameter is missing\<close>, whatever the
  \<^verbatim>\<open>config\<close> parameter holds.
\<close>

theorem missing_target_rejected:
  assumes "Get (Query r) ''target'' = []"
  shows "(\<exists>rejected. probeRequest env r c = Inl rejected \<and>
            probeHandler env start r c whitelist = Wrote rejected \<and>
            (Status rejected = 400 \<or> Status rejected = 500)) \<and>
         (\<forall>m t0. Modules c (moduleName r) = Some m \<longrightarrow> headerTimeout env r = Inr t0 \<longrightarrow>
            probeHandler env start r c whitelist =
              Wrote (http_Error ''Target parameter is missing'' 400))"
proof -
  have "\<exists>rejected. probeRequest env r c = Inl rejected \<and>
          (Status rejected = 400 \<or> Status rejected = 500)"
    using assms
    by (auto simp: probeRequest_def http_Error_def Let_def split: option.splits sum.splits)
  moreover have "probeHandler env start r c whitelist =
      Wrote (http_Error ''Target parameter is missing'' 400)"
    if "Modules c (moduleName r) = Some m" and "headerTimeout env r = Inr t0" for m t0
    using probeRequest_no_target [OF that assms] by (simp add: probeHandler_rejected)
  ultimately show ?thesis
    by (auto simp: probeHandler_rejected)
qed

theorem missing_target_rejected_witness:
  "probeHandler env0 0 noTarget conf1 [] =
     Wrote \<lparr>Status = 400, Body = Text (''Target parameter is missing'' @ [CHR 0x0A])\<rparr>"
proof -
  have a: "Get (Query noTarget) ''target'' = []"
    and b: "Modules conf1 (moduleName noTarget) = Some tcp_connect"
    and c: "headerTimeout env0 noTarget = Inr 0"
    by (simp_all add: moduleName_def Get_def headerTimeout_def sample_defs noTarget_def)
  show ?thesis
    using missing_target_rejected [OF a, of env0 conf1 0 "[]"] b c by (simp add: http_Error_def)
qed

text \<open>
  C2 as it is stated fails: without a target, an unknown module is answered with 400
  \<^verbatim>\<open>Unknown module\<close>, and an unparseable hint with 500; neither body mentions the target.
\<close>

theorem missing_target_counterexample:
  "Get (Query noTargetUnknownModule) ''target'' = [] \<and>
   probeHandler env0 0 noTargetUnknownModule conf1 [] =
     Wrote \<lparr>Status = 400, Body = Text (''Unknown module '' @ plainQuote ''nope'' @ [CHR 0x0A])\<rparr> \<and>
   Get (Query noTargetBadHint) ''target'' = [] \<and>
   probeHandler env0 0 noTargetBadHint conf1 [] =
     Wrote \<lparr>Status = 500,
            Body = Text (''Failed to parse timeout from Prometheus header: '' @
                         ''strconv.ParseFloat: parsing '' @ plainQuote ''abc'' @
                         '': invalid syntax'' @ [CHR 0x0A])\<rparr>"
  by (simp add: probeHandler_def probeRequest_def moduleName_def Get_def http_Error_def
      headerTimeout_def sample_defs noTargetUnknownModule_def noTargetBadHint_def)

section \<open>The probe and its metrics\<close>

text \<open>
  C5. For every request to \<^verbatim>\<open>/probe\<close> that reaches the call of the prober: after the
  prober returns, the duration gauge holds the time elapsed since the start, whatever the
  outcome; the success gauge holds 1 if the prober returned true and stays at 0 otherwise;
  and the response has status 200 and renders the container with both gauges, followed by
  what the prober registered. The shared state is as it was.
\<close>

theorem probe_finalization:
  assumes "CheckInIpWhitelist env whitelist r = None"
    and "probeRequest env r (C s) = Inr (ctx, target, effective, prober)"
    and "prober ctx target effective [probeSuccessGauge, probeDurationGauge] = ret"
  shows "probeEndpoint env whitelist start s r =
     (Wrote \<lparr>Status = 200,
             Body = Exposition
               ([\<lparr>Name = ''probe_success'',
                  Help = ''Displays whether or not the probe was a success'',
                  Val = (if success ret then 1 else 0)\<rparr>,
                 \<lparr>Name = ''probe_duration_seconds'',
                  Help = ''Returns how long the probe took to complete in seconds'',
                  Val = Seconds (returned ret - start)\<rparr>] @ collected ret)\<rparr>,
      s)"
  using probeEndpoint_probes [OF assms]
  by (simp add: probeSuccessGauge_def probeDurationGauge_def NewGauge_def)

theorem probe_finalization_witness:
  "probeEndpoint env0 [] 1000000000 state1 probeUp =
     (Wrote \<lparr>Status = 200,
             Body = Exposition
               [\<lparr>Name = ''probe_success'',
                 Help = ''Displays whether or not the probe was a success'', Val = 1\<rparr>,
                \<lparr>Name = ''probe_duration_seconds'',
                 Help = ''Returns how long the probe took to complete in seconds'',
                 Val = 1 / 4\<rparr>,
                \<lparr>Name = ''context_timeout_nanoseconds'', Help = ''example.org'',
                 Val = 4500000000\<rparr>,
                \<lparr>Name = ''registry_entries'', Help = ''valid_status_codes: []'', Val = 2\<rparr>]\<rparr>,
      state1) \<and>
   probeEndpoint env0 [] 1000000000 state1 probeDown =
     (Wrote \<lparr>Status = 200,
             Body = Exposition
               [\<lparr>Name = ''probe_success'',
                 Help = ''Displays whether or not the probe was a success'', Val = 0\<rparr>,
                \<lparr>Name = ''probe_duration_seconds'',
                 Help = ''Returns how long the probe took to complete in seconds'',
                 Val = 1 / 4\<rparr>,
                \<lparr>Name = ''context_timeout_nanoseconds'', Help = ''192.0.2.1:22'',
                 Val = 9500000000\<rparr>,
                \<lparr>Name = ''registry_entries'', Help = [], Val = 2\<rparr>]\<rparr>,
      state1)"
proof -
  have g: "CheckInIpWhitelist env0 [] probeUp = None"
    "CheckInIpWhitelist env0 [] probeDown = None"
    by (simp_all add: sample_defs probeUp_def probeDown_def)
  have u: "probeRequest env0 probeUp (C state1) =
      Inr (WithTimeout 4500000000, ''example.org'', http_2xx, echoProbe True)"
    and d: "probeRequest env0 probeDown (C state1) =
      Inr (WithTimeout 9500000000, ''192.0.2.1:22'', tcp_connect, echoProbe False)"
    by (simp_all add: probeRequest_def moduleName_def Get_def headerTimeout_def
        timeoutSeconds_def probeContext_def Probers_def Seconds_def toDuration_def
        sample_defs probeUp_def probeDown_def state1_def)
  show ?thesis
    using probe_finalization [OF g(1) u refl, of 1000000000]
      probe_finalization [OF g(2) d refl, of 1000000000]
    by (simp add: echoProbe_def Seconds_def http_2xx_def tcp_connect_def)
qed

section \<open>Isolation of requests\<close>





section \<open>Reload\<close>

text \<open>
  C3. A reload attempt that fails leaves the configuration of the store as it was, for a
  signal and for an administrative trigger alike, and the inspection endpoint answers as
  before; the error is sent on the reply channel when there is one, and in both cases it
  is logged. The administrative endpoint then answers 500 with the error.
\<close>

theorem failed_reload_keeps_configuration:
  assumes "ReadConfigFile env (configFile env) = Inl err"
  shows "reloadLoop env Hup s =
           (NoReply, s\<lparr>Log := Log s @ [Errorf (''Error reloading config: '' @ err)]\<rparr>) \<and>
         reloadLoop env ReloadCh s =
           (Replied (Some err), s\<lparr>Log := Log s @ [Errorf (''Error reloading config: '' @ err)]\<rparr>) \<and>
         C (snd (reloadLoop env t s)) = C s \<and>
         fst (configHandler env whitelist (snd (reloadLoop env t s)) r) =
           fst (configHandler env whitelist s r) \<and>
         (CheckInIpWhitelist env whitelist r = None \<longrightarrow> Method r = ''POST'' \<longrightarrow>
          reloadHandler env whitelist s r =
            (Wrote (http_Error (''failed to reload config: '' @ err) 500),
             s\<lparr>Log := Log s @ [Errorf (''Error reloading config: '' @ err)]\<rparr>))"
proof -
  note f = reloadLoop_failed [OF assms]
  have c: "C (snd (reloadLoop env t s)) = C s"
    by (cases t) (simp_all add: f)
  have i: "fst (configHandler env whitelist (snd (reloadLoop env t s)) r) =
      fst (configHandler env whitelist s r)"
    by (cases t) (simp_all add: f configHandler_Log)
  have p: "reloadHandler env whitelist s r =
      (Wrote (http_Error (''failed to reload config: '' @ err) 500),
       s\<lparr>Log := Log s @ [Errorf (''Error reloading config: '' @ err)]\<rparr>)"
    if "CheckInIpWhitelist env whitelist r = None" and "Method r = ''POST''"
    using that by (simp add: reloadHandler_def f)
  show ?thesis
    using f c i p by simp
qed

theorem failed_reload_keeps_configuration_witness:
  "reloadLoop env1 Hup state1 =
     (NoReply,
      \<lparr>C = conf1,
       Log = [Errorf (''Error reloading config: Error reading config file: open missing.yml: '' @
                      ''no such file or directory'')]\<rparr>) \<and>
   reloadHandler env1 [] state1 (post ''/-/reload'' ''198.51.100.4:51000'') =
     (Wrote \<lparr>Status = 500,
             Body = Text (''failed to reload config: Error reading config file: '' @
                          ''open missing.yml: no such file or directory'' @ [CHR 0x0A])\<rparr>,
      \<lparr>C = conf1,
       Log = [Errorf (''Error reloading config: Error reading config file: open missing.yml: '' @
                      ''no such file or directory'')]\<rparr>)"
proof -
  have a: "ReadConfigFile env1 (configFile env1) =
      Inl (''Error reading config file: open missing.yml: no such file or directory'')"
    by (simp add: env1_def env0_def readOneFile_def)
  have g: "CheckInIpWhitelist env1 [] (post ''/-/reload'' ''198.51.100.4:51000'') = None"
    "Method (post ''/-/reload'' ''198.51.100.4:51000'') = ''POST''"
    by (simp_all add: env1_def env0_def denyOne_def post_def)
  show ?thesis
    using failed_reload_keeps_configuration [OF a, of state1 Hup "[]"
        "post ''/-/reload'' ''198.51.100.4:51000''"] g
    by (simp add: state1_def http_Error_def)
qed

section \<open>Access control\<close>

text \<open>
  C4. On every endpoint (reload, metrics, probe, configuration, landing page), a request
  that the gate denies gets the gate's answer and nothing else happens: the shared state,
  its log included, is as it was, and the answer depends neither on the configuration in
  the store nor on the file, the probers or the clock. So no configuration is read, no
  metric is registered, and no reload is triggered (a reload attempt always logs a line).
\<close>

theorem denied_request_does_nothing:
  assumes "CheckInIpWhitelist env whitelist r = Some denied"
  shows "ServeHTTP env whitelist start s r = (Wrote denied, s) \<and>
         reloadHandler env whitelist s r = (Wrote denied, s) \<and>
         metricsHandler env whitelist s r = (Wrote denied, s) \<and>
         probeEndpoint env whitelist start s r = (Wrote denied, s) \<and>
         configHandler env whitelist s r = (Wrote denied, s) \<and>
         landingHandler env whitelist s r = (Wrote denied, s)"
  using assms
  by (simp add: ServeHTTP_def reloadHandler_def metricsHandler_def HandlerFor_def
      probeEndpoint_def configHandler_def landingHandler_def)

theorem denied_request_does_nothing_witness:
  "ServeHTTP env0 [] 0 state1 (post ''/-/reload'' ''192.0.2.7:40000'') =
     (Wrote \<lparr>Status = 403, Body = Text ''Forbidden''\<rparr>, state1) \<and>
   ServeHTTP env0 [] 0 state1 (post ''/probe'' ''192.0.2.7:40000'') =
     (Wrote \<lparr>Status = 403, Body = Text ''Forbidden''\<rparr>, state1) \<and>
   ServeHTTP env0 [] 0 state1 (post ''/metrics'' ''192.0.2.7:40000'') =
     (Wrote \<lparr>Status = 403, Body = Text ''Forbidden''\<rparr>, state1) \<and>
   ServeHTTP env0 [] 0 state1 (post ''/config'' ''192.0.2.7:40000'') =
     (Wrote \<lparr>Status = 403, Body = Text ''Forbidden''\<rparr>, state1) \<and>
   ServeHTTP env0 [] 0 state1 (post ''/'' ''192.0.2.7:40000'') =
     (Wrote \<lparr>Status = 403, Body = Text ''Forbidden''\<rparr>, state1)"
proof -
  have g: "CheckInIpWhitelist env0 [] (post path ''192.0.2.7:40000'') =
      Some \<lparr>Status = 403, Body = Text ''Forbidden''\<rparr>" for path
    by (simp add: env0_def denyOne_def post_def)
  show ?thesis
    using denied_request_does_nothing [OF g] by simp
qed

section \<open>The whitelist at startup\<close>

text \<open>
  C9 fails for a single address written as an IPv4-mapped IPv6 address. With the flag
  \<^verbatim>\<open>::ffff:1.2.3.4\<close>, \<^verbatim>\<open>net.ParseIP\<close> gives an address whose \<^verbatim>\<open>To4()\<close> is not \<^verbatim>\<open>nil\<close>, so the
  loop appends \<^verbatim>\<open>/32\<close> to the IPv6 text, and \<^verbatim>\<open>net.ParseCIDR\<close> reads \<^verbatim>\<open>::ffff:1.2.3.4/32\<close>
  as the IPv6 block \<^verbatim>\<open>::/32\<close>. The whitelist is that one block: it is not an exact-match
  range, it does not allow 1.2.3.4, and it allows \<^verbatim>\<open>::1\<close>.
\<close>

theorem mapped_address_is_not_exact:
  "ParseIP env2 ''::ffff:1.2.3.4'' = Some (IPv4 16909060) \<and>
   netIpString env2 ''::ffff:1.2.3.4'' = ''::ffff:1.2.3.4/32'' \<and>
   ipWhitelist env2 = Inr [\<lparr>netIP = IPv6 0, ones = 32\<rparr>] \<and>
   \<not> allowed [\<lparr>netIP = IPv6 0, ones = 32\<rparr>] (IPv4 16909060) \<and>
   allowed [\<lparr>netIP = IPv6 0, ones = 32\<rparr>] (IPv6 1)"
  by (simp add: ipWhitelist_def env2_def env0_def netIpString_def tableParseIP_def
      tableParseCIDR_def allowed_def Contains_def)

end
